theory Spec2Isabelle
  imports Complex_Main
begin

section \<open>Python scalar values\<close>

text \<open>
  The parameters that the constraint rules read are Python scalars: \<^verbatim>\<open>None\<close>, a
  \<^verbatim>\<open>bool\<close>, or a number. Numbers are the reals extended by the three special
  floating-point values; rounding and overflow of finite arithmetic are not modelled.
\<close>

datatype num = Fin real | PInf | NInf | NaN

datatype pyval = PNone | PBool bool | PNum num

datatype error = ModelError string | TypeError

text \<open>Python truth value, as tested by \<^verbatim>\<open>if x:\<close> and \<^verbatim>\<open>not x\<close>.\<close>

fun truthy :: "pyval \<Rightarrow> bool" where
  "truthy PNone = False"
| "truthy (PBool b) = b"
| "truthy (PNum (Fin r)) = (r \<noteq> 0)"
| "truthy (PNum PInf) = True"
| "truthy (PNum NInf) = True"
| "truthy (PNum NaN) = True"

text \<open>\<^verbatim>\<open>x == 0\<close>: \<^verbatim>\<open>False == 0\<close> holds in Python, \<^verbatim>\<open>None == 0\<close> does not.\<close>

fun py_eq_zero :: "pyval \<Rightarrow> bool" where
  "py_eq_zero PNone = False"
| "py_eq_zero (PBool b) = (\<not> b)"
| "py_eq_zero (PNum (Fin r)) = (r = 0)"
| "py_eq_zero (PNum PInf) = False"
| "py_eq_zero (PNum NInf) = False"
| "py_eq_zero (PNum NaN) = False"

text \<open>\<^verbatim>\<open>np.isinf(x)\<close>: true for both infinities, a \<^verbatim>\<open>TypeError\<close> for \<^verbatim>\<open>None\<close>.\<close>

fun np_isinf :: "pyval \<Rightarrow> error + bool" where
  "np_isinf PNone = Inl TypeError"
| "np_isinf (PBool b) = Inr False"
| "np_isinf (PNum (Fin r)) = Inr False"
| "np_isinf (PNum PInf) = Inr True"
| "np_isinf (PNum NInf) = Inr True"
| "np_isinf (PNum NaN) = Inr False"

fun num_mul :: "num \<Rightarrow> num \<Rightarrow> num" where
  "num_mul NaN y = NaN"
| "num_mul (Fin a) NaN = NaN"
| "num_mul PInf NaN = NaN"
| "num_mul NInf NaN = NaN"
| "num_mul (Fin a) (Fin b) = Fin (a * b)"
| "num_mul (Fin a) PInf = (if 0 < a then PInf else if a < 0 then NInf else NaN)"
| "num_mul (Fin a) NInf = (if 0 < a then NInf else if a < 0 then PInf else NaN)"
| "num_mul PInf (Fin b) = (if 0 < b then PInf else if b < 0 then NInf else NaN)"
| "num_mul NInf (Fin b) = (if 0 < b then NInf else if b < 0 then PInf else NaN)"
| "num_mul PInf PInf = PInf"
| "num_mul PInf NInf = NInf"
| "num_mul NInf PInf = NInf"
| "num_mul NInf NInf = PInf"

text \<open>The number a value stands for in arithmetic; \<^verbatim>\<open>None\<close> has none.\<close>

fun num_of :: "pyval \<Rightarrow> num option" where
  "num_of PNone = None"
| "num_of (PBool b) = Some (Fin (if b then 1 else 0))"
| "num_of (PNum n) = Some n"

text \<open>\<^verbatim>\<open>x * y\<close> (and \<^verbatim>\<open>x *= y\<close>): a \<^verbatim>\<open>TypeError\<close> when an operand is \<^verbatim>\<open>None\<close>.\<close>

definition py_mul :: "pyval \<Rightarrow> pyval \<Rightarrow> error + pyval" where
  "py_mul x y =
     (case (num_of x, num_of y) of
        (Some a, Some b) \<Rightarrow> Inr (PNum (num_mul a b))
      | _ \<Rightarrow> Inl TypeError)"

section \<open>The backend model\<close>

text \<open>
  A decision variable of the backend model is addressed by the name of its component
  (\<^verbatim>\<open>getattr(backend_model, parameter)\<close>) and its index \<^verbatim>\<open>[node, tech]\<close>. The rules are
  called on index pairs of the component, so the access itself is taken to succeed.
\<close>

datatype var = Var string string string

datatype constraint =
    Equality var pyval
  | Range pyval var pyval
  | NoConstraint
  | SumEquality "var list" pyval
  | SumLessEq "var list" pyval

text \<open>
  The objective is a symbolic expression over the slack variables \<^verbatim>\<open>unmet_demand\<close> and
  \<^verbatim>\<open>unused_supply\<close> (indexed by node, carrier and timestep) and the \<^verbatim>\<open>cost\<close> variable
  (indexed by cost class, node and technology).
\<close>

datatype ovar =
    UnmetDemand string string string
  | UnusedSupply string string string
  | Cost string string string

datatype expr = Const real | V ovar | Add expr expr | Sub expr expr | Mul expr expr

text \<open>
  \<^verbatim>\<open>get_param\<close> of \<^verbatim>\<open>calliope.backend.pyomo.util\<close> is a field of the model here: it maps
  a parameter name and an index (\<^verbatim>\<open>(node, tech)\<close> or a single \<^verbatim>\<open>tech\<close>) to a value.
\<close>

record backend_model =
  get_param :: "string \<Rightarrow> string list \<Rightarrow> pyval"
  nodes :: "string list"
  energy_cap_index :: "(string \<times> string) list"
  run_config :: "string \<rightharpoonup> pyval"
  objective_sense :: string
  objective_cost_class :: "(string \<times> real) list"
  cost_index :: "(string \<times> string \<times> string) list"
  timesteps :: "string list"
  timestep_weights :: "string \<Rightarrow> real"
  bigM :: real
  unmet_demand_index :: "(string \<times> string \<times> string) list"
  unused_supply_index :: "(string \<times> string \<times> string) list"

section \<open>capacity.py\<close>

text \<open>
  \<^verbatim>\<open>get_capacity_constraint\<close>. The first component of the result lists the parameters
  fetched from the store, in order; the second is the constraint returned or the
  exception raised.
\<close>

definition get_capacity_constraint ::
  "backend_model \<Rightarrow> string \<Rightarrow> string \<Rightarrow> string \<Rightarrow> pyval \<Rightarrow> pyval \<Rightarrow> pyval \<Rightarrow> pyval
     \<Rightarrow> string list \<times> (error + constraint)" where
  "get_capacity_constraint m parameter node tech p_equals p_max p_min scale =
     (let decision_variable = Var parameter;
          (v_equals, fetched1) =
             (if \<not> truthy p_equals
              then (get_param m (parameter @ ''_equals'') [node, tech], [parameter @ ''_equals''])
              else (p_equals, []));
          (v_max, fetched2) =
             (if \<not> truthy p_max
              then (get_param m (parameter @ ''_max'') [node, tech], [parameter @ ''_max''])
              else (p_max, []));
          (v_min, fetched3) =
             (if \<not> truthy p_min
              then (get_param m (parameter @ ''_min'') [node, tech], [parameter @ ''_min''])
              else (p_min, []))
      in (fetched1 @ fetched2 @ fetched3,
          if v_equals \<noteq> PBool False \<and> v_equals \<noteq> PNone then
            (case np_isinf v_equals of
               Inl e \<Rightarrow> Inl e
             | Inr True \<Rightarrow>
                 Inl (ModelError (''Cannot use inf for '' @ parameter @ ''_equals for `''
                                   @ tech @ ''` at `'' @ node @ ''`''))
             | Inr False \<Rightarrow>
                 (case (if truthy scale then py_mul v_equals scale else Inr v_equals) of
                    Inl e \<Rightarrow> Inl e
                  | Inr v \<Rightarrow> Inr (Equality (decision_variable node tech) v)))
          else
            (case (if py_eq_zero v_min then np_isinf v_max else Inr False) of
               Inl e \<Rightarrow> Inl e
             | Inr True \<Rightarrow> Inr NoConstraint
             | Inr False \<Rightarrow>
                 (if truthy scale then
                    (case py_mul v_max scale of
                       Inl e \<Rightarrow> Inl e
                     | Inr v_max' \<Rightarrow>
                         (case py_mul v_min scale of
                            Inl e \<Rightarrow> Inl e
                          | Inr v_min' \<Rightarrow>
                              Inr (Range v_min' (decision_variable node tech) v_max')))
                  else Inr (Range v_min (decision_variable node tech) v_max)))))"

definition storage_capacity_constraint_rule ::
  "backend_model \<Rightarrow> string \<Rightarrow> string \<Rightarrow> string list \<times> (error + constraint)" where
  "storage_capacity_constraint_rule m node tech =
     get_capacity_constraint m ''storage_cap'' node tech PNone PNone PNone PNone"

definition resource_capacity_constraint_rule ::
  "backend_model \<Rightarrow> string \<Rightarrow> string \<Rightarrow> string list \<times> (error + constraint)" where
  "resource_capacity_constraint_rule m node tech =
     get_capacity_constraint m ''resource_cap'' node tech PNone PNone PNone PNone"

definition resource_area_constraint_rule ::
  "backend_model \<Rightarrow> string \<Rightarrow> string \<Rightarrow> string list \<times> (error + constraint)" where
  "resource_area_constraint_rule m node tech =
     (let energy_cap_max = get_param m ''energy_cap_max'' [node, tech];
          area_per_energy_cap = get_param m ''resource_area_per_energy_cap'' [node, tech]
      in if py_eq_zero energy_cap_max \<and> \<not> truthy area_per_energy_cap
         then ([], Inr (Equality (Var ''resource_area'' node tech) (PNum (Fin 0))))
         else get_capacity_constraint m ''resource_area'' node tech PNone PNone PNone PNone)"

definition energy_capacity_constraint_rule ::
  "backend_model \<Rightarrow> string \<Rightarrow> string \<Rightarrow> string list \<times> (error + constraint)" where
  "energy_capacity_constraint_rule m node tech =
     (let scale = get_param m ''energy_cap_scale'' [node, tech]
      in get_capacity_constraint m ''energy_cap'' node tech PNone PNone PNone scale)"

text \<open>
  \<^verbatim>\<open>energy_capacity_systemwide_constraint_rule\<close>. Comparing the sum with \<^verbatim>\<open>None\<close> in the
  last line raises a \<^verbatim>\<open>TypeError\<close>.
\<close>

definition energy_capacity_systemwide_constraint_rule ::
  "backend_model \<Rightarrow> string \<Rightarrow> error + constraint" where
  "energy_capacity_systemwide_constraint_rule m tech =
     (let max_systemwide = get_param m ''energy_cap_max_systemwide'' [tech];
          equals_systemwide = get_param m ''energy_cap_equals_systemwide'' [tech];
          energy_cap =
            map (\<lambda>node. Var ''energy_cap'' node tech)
              (filter (\<lambda>node. (node, tech) \<in> set (energy_cap_index m)) (nodes m))
      in if truthy equals_systemwide
         then Inr (SumEquality energy_cap equals_systemwide)
         else if max_systemwide = PNone
         then Inl TypeError
         else Inr (SumLessEq energy_cap max_systemwide))"

section \<open>objective.py\<close>

text \<open>The value of an expression under an assignment of the variables, and its variables.\<close>

fun eval :: "(ovar \<Rightarrow> real) \<Rightarrow> expr \<Rightarrow> real" where
  "eval \<rho> (Const c) = c"
| "eval \<rho> (V x) = \<rho> x"
| "eval \<rho> (Add a b) = eval \<rho> a + eval \<rho> b"
| "eval \<rho> (Sub a b) = eval \<rho> a - eval \<rho> b"
| "eval \<rho> (Mul a b) = eval \<rho> a * eval \<rho> b"

fun vars_of :: "expr \<Rightarrow> ovar set" where
  "vars_of (Const c) = {}"
| "vars_of (V x) = {x}"
| "vars_of (Add a b) = vars_of a \<union> vars_of b"
| "vars_of (Sub a b) = vars_of a \<union> vars_of b"
| "vars_of (Mul a b) = vars_of a \<union> vars_of b"

text \<open>Python's \<^verbatim>\<open>sum\<close>: starts from \<^verbatim>\<open>0\<close> and adds the items from left to right.\<close>

definition py_sum :: "expr list \<Rightarrow> expr" where
  "py_sum xs = foldl Add (Const 0) xs"

text \<open>The slices \<^verbatim>\<open>unmet_demand[:, :, timestep]\<close>, \<^verbatim>\<open>unused_supply[:, :, timestep]\<close>
  and \<^verbatim>\<open>cost[k, :, :]\<close>.\<close>

definition unmet_demand_slice :: "backend_model \<Rightarrow> string \<Rightarrow> expr list" where
  "unmet_demand_slice m timestep =
     map (\<lambda>(n, c, t). V (UnmetDemand n c t))
       (filter (\<lambda>(n, c, t). t = timestep) (unmet_demand_index m))"

definition unused_supply_slice :: "backend_model \<Rightarrow> string \<Rightarrow> expr list" where
  "unused_supply_slice m timestep =
     map (\<lambda>(n, c, t). V (UnusedSupply n c t))
       (filter (\<lambda>(n, c, t). t = timestep) (unused_supply_index m))"

definition cost_slice :: "backend_model \<Rightarrow> string \<Rightarrow> expr list" where
  "cost_slice m k =
     map (\<lambda>(c, n, t). V (Cost c n t))
       (filter (\<lambda>(c, n, t). c = k) (cost_index m))"

text \<open>\<^verbatim>\<open>__calliope_run_config.get("ensure_feasibility", False)\<close>, as tested by \<^verbatim>\<open>if\<close>.\<close>

definition ensure_feasibility :: "backend_model \<Rightarrow> bool" where
  "ensure_feasibility m =
     truthy (case run_config m ''ensure_feasibility'' of None \<Rightarrow> PBool False | Some v \<Rightarrow> v)"

text \<open>The local variable \<^verbatim>\<open>unmet_demand\<close> of \<^verbatim>\<open>obj_rule\<close> in
  \<^verbatim>\<open>minmax_cost_optimization\<close>, as it stands when the \<^verbatim>\<open>return\<close> is reached.\<close>

definition unmet_demand :: "backend_model \<Rightarrow> expr" where
  "unmet_demand m =
     (if ensure_feasibility m then
        (let unmet_demand =
               py_sum (map (\<lambda>timestep.
                  Sub (py_sum (unmet_demand_slice m timestep))
                      (Mul (Mul (py_sum (unused_supply_slice m timestep))
                                (Const (timestep_weights m timestep)))
                           (Const (bigM m))))
                  (timesteps m))
         in if objective_sense m = ''maximize''
            then Mul unmet_demand (Const (- 1))
            else unmet_demand)
      else Const 0)"

definition obj_rule :: "backend_model \<Rightarrow> expr" where
  "obj_rule m =
     Add (py_sum (map (\<lambda>(k, v). Mul (py_sum (cost_slice m k)) (Const v))
                    (objective_cost_class m)))
         (unmet_demand m)"

section \<open>Vocabulary of the properties\<close>

text \<open>
  The value a parameter of \<^verbatim>\<open>get_capacity_constraint\<close> has once the three defaulting
  statements at the top of the function have run: the supplied argument when it is
  truthy, the stored parameter otherwise.
\<close>

definition resolved :: "backend_model \<Rightarrow> string \<Rightarrow> string \<Rightarrow> string \<Rightarrow> pyval \<Rightarrow> pyval" where
  "resolved m name node tech supplied =
     (if truthy supplied then supplied else get_param m name [node, tech])"

text \<open>A value is finite when it is a number other than an infinity or NaN, or a boolean.\<close>

fun finite_value :: "pyval \<Rightarrow> bool" where
  "finite_value PNone = False"
| "finite_value (PBool b) = True"
| "finite_value (PNum (Fin r)) = True"
| "finite_value (PNum PInf) = False"
| "finite_value (PNum NInf) = False"
| "finite_value (PNum NaN) = False"

text \<open>
  A small model for the concrete instances below: two nodes, one technology installed
  at the first node only, one timestep, and a parameter store given as a table (a
  parameter missing from the table reads as \<^verbatim>\<open>None\<close>).
\<close>

definition model_with :: "(string \<times> pyval) list \<Rightarrow> backend_model" where
  "model_with tbl =
     \<lparr> get_param = (\<lambda>name dims. case map_of tbl name of Some v \<Rightarrow> v | None \<Rightarrow> PNone),
       nodes = [''N1'', ''N2''],
       energy_cap_index = [(''N1'', ''pv'')],
       run_config = [''ensure_feasibility'' \<mapsto> PBool True],
       objective_sense = ''minimize'',
       objective_cost_class = [(''monetary'', 1)],
       cost_index = [(''monetary'', ''N1'', ''pv'')],
       timesteps = [''t1''],
       timestep_weights = (\<lambda>t. 1),
       bigM = 1000,
       unmet_demand_index = [(''N1'', ''power'', ''t1'')],
       unused_supply_index = [(''N1'', ''power'', ''t1'')] \<rparr>"

definition slack_values :: "ovar \<Rightarrow> real" where
  "slack_values x = (case x of UnmetDemand n c t \<Rightarrow> 2 | UnusedSupply n c t \<Rightarrow> 1 | Cost k n t \<Rightarrow> 7)"

section \<open>Auxiliary facts\<close>

lemma outcome_eq:
  "snd (get_capacity_constraint m parameter node tech p_equals p_max p_min scale) =
   (let v_equals = resolved m (parameter @ ''_equals'') node tech p_equals;
        v_max = resolved m (parameter @ ''_max'') node tech p_max;
        v_min = resolved m (parameter @ ''_min'') node tech p_min
    in if v_equals \<noteq> PBool False \<and> v_equals \<noteq> PNone then
            (case np_isinf v_equals of
               Inl e \<Rightarrow> Inl e
             | Inr True \<Rightarrow>
                 Inl (ModelError (''Cannot use inf for '' @ parameter @ ''_equals for `''
                                   @ tech @ ''` at `'' @ node @ ''`''))
             | Inr False \<Rightarrow>
                 (case (if truthy scale then py_mul v_equals scale else Inr v_equals) of
                    Inl e \<Rightarrow> Inl e
                  | Inr v \<Rightarrow> Inr (Equality (Var parameter node tech) v)))
          else
            (case (if py_eq_zero v_min then np_isinf v_max else Inr False) of
               Inl e \<Rightarrow> Inl e
             | Inr True \<Rightarrow> Inr NoConstraint
             | Inr False \<Rightarrow>
                 (if truthy scale then
                    (case py_mul v_max scale of
                       Inl e \<Rightarrow> Inl e
                     | Inr v_max' \<Rightarrow>
                         (case py_mul v_min scale of
                            Inl e \<Rightarrow> Inl e
                          | Inr v_min' \<Rightarrow>
                              Inr (Range v_min' (Var parameter node tech) v_max')))
                  else Inr (Range v_min (Var parameter node tech) v_max))))"
proof -
  have f: "\<And>c (a::pyval) (b::string list) a' b'. fst (if c then (a, b) else (a', b')) = (if c then a else a')"
    by simp
  have r: "\<And>name s. (if \<not> truthy s then get_param m name [node, tech] else s) = resolved m name node tech s"
    by (simp add: resolved_def)
  show ?thesis
    unfolding get_capacity_constraint_def Let_def split_def snd_conv f r ..
qed

lemma finite_set_cases:
  "finite_value e \<Longrightarrow> e \<noteq> PBool False \<Longrightarrow> e = PBool True \<or> (\<exists>r. e = PNum (Fin r))"
  by (cases e rule: finite_value.cases) auto

lemma truthy_num_of: "truthy s \<Longrightarrow> \<exists>n. num_of s = Some n"
  by (cases s) auto

lemma falsy_cases: "\<not> truthy v \<longleftrightarrow> v = PNone \<or> v = PBool False \<or> v = PNum (Fin 0)"
  by (cases v rule: truthy.cases) auto

lemma eq_zero_cases: "py_eq_zero v \<longleftrightarrow> v = PBool False \<or> v = PNum (Fin 0)"
  by (cases v rule: py_eq_zero.cases) auto

lemma eval_foldl_Add:
  "eval \<rho> (foldl Add a xs) = eval \<rho> a + sum_list (map (eval \<rho>) xs)"
  by (induction xs arbitrary: a) simp_all

lemma eval_py_sum: "eval \<rho> (py_sum xs) = sum_list (map (eval \<rho>) xs)"
  by (simp add: py_sum_def eval_foldl_Add)

lemma vars_of_foldl_Add:
  "vars_of (foldl Add a xs) = vars_of a \<union> (\<Union>x\<in>set xs. vars_of x)"
  by (induction xs arbitrary: a) auto

lemma vars_of_py_sum: "vars_of (py_sum xs) = (\<Union>x\<in>set xs. vars_of x)"
  by (simp add: py_sum_def vars_of_foldl_Add)

text \<open>Arguments that are supplied and truthy are used as they are, and nothing is fetched.\<close>

lemma truthy_arguments_are_kept:
  assumes "truthy p_equals" and "truthy p_max" and "truthy p_min"
  shows "fst (get_capacity_constraint m parameter node tech p_equals p_max p_min scale) = []
       \<and> resolved m (parameter @ ''_equals'') node tech p_equals = p_equals
       \<and> resolved m (parameter @ ''_max'') node tech p_max = p_max
       \<and> resolved m (parameter @ ''_min'') node tech p_min = p_min"
  using assms by (simp add: get_capacity_constraint_def resolved_def Let_def)

text \<open>
  The value of the penalty term as the code builds it (before the sign is flipped for
  \<^verbatim>\<open>maximize\<close>): per timestep, the unmet demand minus the weighted unused supply.
\<close>

lemma unmet_demand_value:
  assumes "ensure_feasibility m" and "objective_sense m \<noteq> ''maximize''"
  shows "eval \<rho> (unmet_demand m) =
    (\<Sum>t\<leftarrow>timesteps m.
        (\<Sum>e\<leftarrow>unmet_demand_slice m t. eval \<rho> e)
        - (\<Sum>e\<leftarrow>unused_supply_slice m t. eval \<rho> e) * timestep_weights m t * bigM m)"
  using assms by (simp add: unmet_demand_def eval_py_sum comp_def)

section \<open>The capacity-constraint resolver\<close>

text \<open>
  C1 (priority of \<^verbatim>\<open>equals\<close>), as amended. Whenever the equals parameter, after
  defaulting, is set (neither \<^verbatim>\<open>None\<close> nor \<^verbatim>\<open>False\<close>) and finite, the resolver returns an
  equality constraint on the decision variable, whatever the max and min parameters
  are. The right-hand side is the equals value multiplied by the scale when the scale
  is truthy (given and not zero), and the equals value itself otherwise.
\<close>

theorem equals_priority:
  assumes "e = resolved m (parameter @ ''_equals'') node tech p_equals"
    and "e \<noteq> PNone" and "e \<noteq> PBool False" and "finite_value e"
  shows "(truthy scale \<longrightarrow> (\<exists>v. py_mul e scale = Inr v \<and>
           snd (get_capacity_constraint m parameter node tech p_equals p_max p_min scale)
             = Inr (Equality (Var parameter node tech) v)))
       \<and> (\<not> truthy scale \<longrightarrow>
           snd (get_capacity_constraint m parameter node tech p_equals p_max p_min scale)
             = Inr (Equality (Var parameter node tech) e))"
proof -
  from assms(3,4) have ec: "e = PBool True \<or> (\<exists>r. e = PNum (Fin r))"
    by (rule finite_set_cases[rotated])
  then have inf: "np_isinf e = Inr False" by auto
  from ec have ne: "\<exists>a. num_of e = Some a" by auto
  show ?thesis
  proof (intro conjI impI)
    assume ts: "truthy scale"
    then obtain s where s: "num_of scale = Some s" using truthy_num_of by blast
    from ne obtain a where a: "num_of e = Some a" by blast
    have "py_mul e scale = Inr (PNum (num_mul a s))" by (simp add: py_mul_def a s)
    then show "\<exists>v. py_mul e scale = Inr v \<and>
           snd (get_capacity_constraint m parameter node tech p_equals p_max p_min scale)
             = Inr (Equality (Var parameter node tech) v)"
      using assms(1,2,3) inf ts by (simp add: outcome_eq)
  next
    assume "\<not> truthy scale"
    then show "snd (get_capacity_constraint m parameter node tech p_equals p_max p_min scale)
             = Inr (Equality (Var parameter node tech) e)"
      using assms(1,2,3) inf by (simp add: outcome_eq)
  qed
qed

text \<open>
  An instance of C1 with contradictory bounds (min 9 above max 3): equals 5 with scale
  2 gives equality with 10, and with no scale equality with 5.
\<close>

theorem equals_priority_witness:
  "snd (get_capacity_constraint
          (model_with [(''energy_cap_equals'', PNum (Fin 5)), (''energy_cap_max'', PNum (Fin 3)),
                       (''energy_cap_min'', PNum (Fin 9))])
          ''energy_cap'' ''N1'' ''pv'' PNone PNone PNone (PNum (Fin 2)))
     = Inr (Equality (Var ''energy_cap'' ''N1'' ''pv'') (PNum (Fin 10)))
   \<and> snd (get_capacity_constraint
          (model_with [(''energy_cap_equals'', PNum (Fin 5)), (''energy_cap_max'', PNum (Fin 3)),
                       (''energy_cap_min'', PNum (Fin 9))])
          ''energy_cap'' ''N1'' ''pv'' PNone PNone PNone PNone)
     = Inr (Equality (Var ''energy_cap'' ''N1'' ''pv'') (PNum (Fin 5)))"
proof -
  let ?m = "model_with [(''energy_cap_equals'', PNum (Fin 5)), (''energy_cap_max'', PNum (Fin 3)),
                        (''energy_cap_min'', PNum (Fin 9))]"
  have r: "PNum (Fin 5) = resolved ?m (''energy_cap'' @ ''_equals'') ''N1'' ''pv'' PNone"
    by (simp add: resolved_def model_with_def)
  have s: "PNum (Fin 5) \<noteq> PNone" "PNum (Fin 5) \<noteq> PBool False" "finite_value (PNum (Fin 5))"
    by simp_all
  have t: "truthy (PNum (Fin 2))" "\<not> truthy PNone" by simp_all
  from equals_priority [OF r s, of "PNum (Fin 2)" PNone PNone] t(1)
  obtain v where v: "py_mul (PNum (Fin 5)) (PNum (Fin 2)) = Inr v"
    and e: "snd (get_capacity_constraint ?m ''energy_cap'' ''N1'' ''pv'' PNone PNone PNone (PNum (Fin 2)))
              = Inr (Equality (Var ''energy_cap'' ''N1'' ''pv'') v)"
    by blast
  from v have "v = PNum (Fin 10)" by (simp add: py_mul_def)
  with e have a: "snd (get_capacity_constraint ?m ''energy_cap'' ''N1'' ''pv'' PNone PNone PNone (PNum (Fin 2)))
              = Inr (Equality (Var ''energy_cap'' ''N1'' ''pv'') (PNum (Fin 10)))" by simp
  from equals_priority [OF r s, of PNone PNone PNone] t(2)
  have b: "snd (get_capacity_constraint ?m ''energy_cap'' ''N1'' ''pv'' PNone PNone PNone PNone)
              = Inr (Equality (Var ''energy_cap'' ''N1'' ''pv'') (PNum (Fin 5)))" by blast
  from a b show ?thesis by (rule conjI)
qed

text \<open>
  C1 as stated fails for a scale of zero: the test \<^verbatim>\<open>if scale:\<close> treats it like an absent
  scale, so equals 5 with scale 0 gives equality with 5, not with \<open>5 * 0 = 0\<close>.
\<close>

theorem zero_scale_leaves_equals_unscaled:
  "snd (get_capacity_constraint (model_with [(''energy_cap_equals'', PNum (Fin 5))])
          ''energy_cap'' ''N1'' ''pv'' PNone PNone PNone (PNum (Fin 0)))
     = Inr (Equality (Var ''energy_cap'' ''N1'' ''pv'') (PNum (Fin 5)))
   \<and> py_mul (PNum (Fin 5)) (PNum (Fin 0)) = Inr (PNum (Fin 0))
   \<and> snd (get_capacity_constraint (model_with [(''energy_cap_equals'', PNum (Fin 5))])
          ''energy_cap'' ''N1'' ''pv'' PNone PNone PNone (PNum (Fin 0)))
     \<noteq> Inr (Equality (Var ''energy_cap'' ''N1'' ''pv'') (PNum (Fin 0)))"
  by (simp add: get_capacity_constraint_def model_with_def py_mul_def)

text \<open>
  C2 (infinite \<^verbatim>\<open>equals\<close>). Whenever the equals parameter, after defaulting, is positive
  infinity, the resolver raises \<^verbatim>\<open>ModelError\<close> with a message that names the parameter,
  the technology and the node, for every parameter name (capacity kind) and whatever
  max, min and scale are; no constraint is returned.
\<close>

theorem infinite_equals_raises: "resolved m (parameter @ ''_equals'') node tech p_equals = PNum PInf \<Longrightarrow>
  snd (get_capacity_constraint m parameter node tech p_equals p_max p_min scale) =
    Inl (ModelError (''Cannot use inf for '' @ parameter @ ''_equals for `'' @ tech @ ''` at `'' @ node @ ''`''))"
  by (simp add: outcome_eq)

text \<open>
An instance of C2 for \<^verbatim>\<open>resource_cap\<close>.
\<close>

theorem infinite_equals_raises_witness:
  "snd (get_capacity_constraint (model_with [(''resource_cap_equals'', PNum PInf)])
          ''resource_cap'' ''N1'' ''pv'' PNone PNone PNone PNone)
     = Inl (ModelError ''Cannot use inf for resource_cap_equals for `pv` at `N1`'')"
proof -
  have r: "resolved (model_with [(''resource_cap_equals'', PNum PInf)])
             (''resource_cap'' @ ''_equals'') ''N1'' ''pv'' PNone = PNum PInf"
    by (simp add: resolved_def model_with_def)
  from infinite_equals_raises [OF r, of PNone PNone PNone] show ?thesis by simp
qed

text \<open>
  C3 (unconstrained case). Whenever the equals parameter, after defaulting, is absent
  (\<^verbatim>\<open>None\<close> or \<^verbatim>\<open>False\<close>), min is exactly zero and max is positive infinity, the resolver
  returns the no-constraint marker: neither a range constraint nor an error.
\<close>

theorem zero_min_infinite_max_unconstrained:
  assumes "resolved m (parameter @ ''_equals'') node tech p_equals = PNone
         \<or> resolved m (parameter @ ''_equals'') node tech p_equals = PBool False"
    and "resolved m (parameter @ ''_min'') node tech p_min = PNum (Fin 0)"
    and "resolved m (parameter @ ''_max'') node tech p_max = PNum PInf"
  shows "snd (get_capacity_constraint m parameter node tech p_equals p_max p_min scale) = Inr NoConstraint"
  using assms by (auto simp add: outcome_eq)

text \<open>
An instance of C3 for \<^verbatim>\<open>storage_cap\<close>.
\<close>

theorem zero_min_infinite_max_unconstrained_witness:
  "snd (get_capacity_constraint
          (model_with [(''storage_cap_equals'', PBool False), (''storage_cap_min'', PNum (Fin 0)),
                       (''storage_cap_max'', PNum PInf)])
          ''storage_cap'' ''N1'' ''battery'' PNone PNone PNone PNone)
     = Inr NoConstraint"
proof -
  let ?m = "model_with [(''storage_cap_equals'', PBool False), (''storage_cap_min'', PNum (Fin 0)),
                        (''storage_cap_max'', PNum PInf)]"
  have e: "resolved ?m (''storage_cap'' @ ''_equals'') ''N1'' ''battery'' PNone = PNone
         \<or> resolved ?m (''storage_cap'' @ ''_equals'') ''N1'' ''battery'' PNone = PBool False"
    by (simp add: resolved_def model_with_def)
  have lo: "resolved ?m (''storage_cap'' @ ''_min'') ''N1'' ''battery'' PNone = PNum (Fin 0)"
    by (simp add: resolved_def model_with_def)
  have hi: "resolved ?m (''storage_cap'' @ ''_max'') ''N1'' ''battery'' PNone = PNum PInf"
    by (simp add: resolved_def model_with_def)
  show ?thesis by (rule zero_min_infinite_max_unconstrained [OF e lo hi])
qed

text \<open>
  C4 (explicit arguments are used as supplied). The defaulting statements test
  \<^verbatim>\<open>not _max\<close> rather than \<^verbatim>\<open>_max is None\<close>, so an explicitly supplied maximum of zero is
  discarded: the call below supplies \<^verbatim>\<open>_max = 0\<close> while the store holds
  \<^verbatim>\<open>storage_cap_max = 100\<close>; \<^verbatim>\<open>storage_cap_max\<close> is fetched all the same and the range
  returned has upper bound 100, where the property asks for no fetch and upper bound 0.
\<close>

theorem supplied_zero_max_is_refetched:
  "get_capacity_constraint
     (model_with [(''storage_cap_equals'', PBool False), (''storage_cap_max'', PNum (Fin 100)),
                  (''storage_cap_min'', PNum (Fin 0))])
     ''storage_cap'' ''N1'' ''battery'' PNone (PNum (Fin 0)) PNone PNone
   = ([''storage_cap_equals'', ''storage_cap_max'', ''storage_cap_min''],
      Inr (Range (PNum (Fin 0)) (Var ''storage_cap'' ''N1'' ''battery'') (PNum (Fin 100))))"
  by (simp add: get_capacity_constraint_def model_with_def)

text \<open>
  C6 (range case), as amended. Whenever the equals parameter, after defaulting, is
  absent (\<^verbatim>\<open>None\<close> or \<^verbatim>\<open>False\<close>), min and max are both present (not \<^verbatim>\<open>None\<close>), and it is not
  the case that min equals zero while max is infinite (of either sign), the resolver
  returns the range constraint from min to max on the decision variable. Both bounds
  are multiplied by the scale when the scale is truthy (given and not zero), and both
  are left as they are otherwise.
\<close>

theorem range_outcome:
  assumes "resolved m (parameter @ ''_equals'') node tech p_equals = PNone
         \<or> resolved m (parameter @ ''_equals'') node tech p_equals = PBool False"
    and "lo = resolved m (parameter @ ''_min'') node tech p_min"
    and "hi = resolved m (parameter @ ''_max'') node tech p_max"
    and "lo \<noteq> PNone" and "hi \<noteq> PNone"
    and "\<not> (py_eq_zero lo \<and> np_isinf hi = Inr True)"
  shows "(truthy scale \<longrightarrow> (\<exists>lo' hi'. py_mul lo scale = Inr lo' \<and> py_mul hi scale = Inr hi' \<and>
           snd (get_capacity_constraint m parameter node tech p_equals p_max p_min scale)
             = Inr (Range lo' (Var parameter node tech) hi')))
       \<and> (\<not> truthy scale \<longrightarrow>
           snd (get_capacity_constraint m parameter node tech p_equals p_max p_min scale)
             = Inr (Range lo (Var parameter node tech) hi))"
proof -
  from assms(5) obtain b where b: "np_isinf hi = Inr b" by (cases hi rule: np_isinf.cases) auto
  with assms(6) have gate: "(if py_eq_zero lo then np_isinf hi else Inr False) = Inr False"
    by auto
  from assms(4) obtain a where a: "num_of lo = Some a" by (cases lo) auto
  from assms(5) obtain c where c: "num_of hi = Some c" by (cases hi) auto
  show ?thesis
  proof (intro conjI impI)
    assume ts: "truthy scale"
    then obtain s where s: "num_of scale = Some s" using truthy_num_of by blast
    have "py_mul lo scale = Inr (PNum (num_mul a s))" "py_mul hi scale = Inr (PNum (num_mul c s))"
      by (simp_all add: py_mul_def a c s)
    then show "\<exists>lo' hi'. py_mul lo scale = Inr lo' \<and> py_mul hi scale = Inr hi' \<and>
           snd (get_capacity_constraint m parameter node tech p_equals p_max p_min scale)
             = Inr (Range lo' (Var parameter node tech) hi')"
      using assms(1) assms(2)[symmetric] assms(3)[symmetric] gate ts
      by (auto simp add: outcome_eq)
  next
    assume "\<not> truthy scale"
    then show "snd (get_capacity_constraint m parameter node tech p_equals p_max p_min scale)
             = Inr (Range lo (Var parameter node tech) hi)"
      using assms(1) assms(2)[symmetric] assms(3)[symmetric] gate
      by (auto simp add: outcome_eq)
  qed
qed

text \<open>
  An instance of C6: bounds 1 and 4 with scale 10 give the range from 10 to 40, and
  with no scale the range from 1 to 4.
\<close>

theorem range_outcome_witness:
  "snd (get_capacity_constraint
          (model_with [(''energy_cap_equals'', PBool False), (''energy_cap_min'', PNum (Fin 1)),
                       (''energy_cap_max'', PNum (Fin 4))])
          ''energy_cap'' ''N1'' ''pv'' PNone PNone PNone (PNum (Fin 10)))
     = Inr (Range (PNum (Fin 10)) (Var ''energy_cap'' ''N1'' ''pv'') (PNum (Fin 40)))
   \<and> snd (get_capacity_constraint
          (model_with [(''energy_cap_equals'', PBool False), (''energy_cap_min'', PNum (Fin 1)),
                       (''energy_cap_max'', PNum (Fin 4))])
          ''energy_cap'' ''N1'' ''pv'' PNone PNone PNone PNone)
     = Inr (Range (PNum (Fin 1)) (Var ''energy_cap'' ''N1'' ''pv'') (PNum (Fin 4)))"
proof -
  let ?m = "model_with [(''energy_cap_equals'', PBool False), (''energy_cap_min'', PNum (Fin 1)),
                        (''energy_cap_max'', PNum (Fin 4))]"
  have e: "resolved ?m (''energy_cap'' @ ''_equals'') ''N1'' ''pv'' PNone = PNone
         \<or> resolved ?m (''energy_cap'' @ ''_equals'') ''N1'' ''pv'' PNone = PBool False"
    by (simp add: resolved_def model_with_def)
  have lo: "PNum (Fin 1) = resolved ?m (''energy_cap'' @ ''_min'') ''N1'' ''pv'' PNone"
    by (simp add: resolved_def model_with_def)
  have hi: "PNum (Fin 4) = resolved ?m (''energy_cap'' @ ''_max'') ''N1'' ''pv'' PNone"
    by (simp add: resolved_def model_with_def)
  have n: "PNum (Fin 1) \<noteq> PNone" "PNum (Fin 4) \<noteq> PNone"
    "\<not> (py_eq_zero (PNum (Fin 1)) \<and> np_isinf (PNum (Fin 4)) = Inr True)"
    by simp_all
  have t: "truthy (PNum (Fin 10))" "\<not> truthy PNone" by simp_all
  from range_outcome [OF e lo hi n, of "PNum (Fin 10)"] t(1)
  obtain lo' hi' where m: "py_mul (PNum (Fin 1)) (PNum (Fin 10)) = Inr lo'"
      "py_mul (PNum (Fin 4)) (PNum (Fin 10)) = Inr hi'"
    and r: "snd (get_capacity_constraint ?m ''energy_cap'' ''N1'' ''pv'' PNone PNone PNone (PNum (Fin 10)))
              = Inr (Range lo' (Var ''energy_cap'' ''N1'' ''pv'') hi')"
    by blast
  from m(1) have "lo' = PNum (Fin 10)" by (simp add: py_mul_def)
  moreover from m(2) have "hi' = PNum (Fin 40)" by (simp add: py_mul_def)
  ultimately have a: "snd (get_capacity_constraint ?m ''energy_cap'' ''N1'' ''pv'' PNone PNone PNone (PNum (Fin 10)))
     = Inr (Range (PNum (Fin 10)) (Var ''energy_cap'' ''N1'' ''pv'') (PNum (Fin 40)))" using r by simp
  from range_outcome [OF e lo hi n, of PNone] t(2)
  have b: "snd (get_capacity_constraint ?m ''energy_cap'' ''N1'' ''pv'' PNone PNone PNone PNone)
     = Inr (Range (PNum (Fin 1)) (Var ''energy_cap'' ''N1'' ''pv'') (PNum (Fin 4)))" by blast
  from a b show ?thesis by (rule conjI)
qed

text \<open>
  C6 as stated fails when max is negative infinity: \<^verbatim>\<open>np.isinf\<close> holds of both
  infinities, so min 0 with max \<open>-\<infinity>\<close>, which is not the pair \<open>(0, +\<infinity>)\<close>, gives the
  no-constraint marker and not a range.
\<close>

theorem negative_infinite_max_unconstrained:
  "snd (get_capacity_constraint
          (model_with [(''storage_cap_equals'', PBool False), (''storage_cap_min'', PNum (Fin 0)),
                       (''storage_cap_max'', PNum NInf)])
          ''storage_cap'' ''N1'' ''battery'' PNone PNone PNone PNone)
     = Inr NoConstraint
   \<and> PNum NInf \<noteq> PNum PInf
   \<and> snd (get_capacity_constraint
          (model_with [(''storage_cap_equals'', PBool False), (''storage_cap_min'', PNum (Fin 0)),
                       (''storage_cap_max'', PNum NInf)])
          ''storage_cap'' ''N1'' ''battery'' PNone PNone PNone PNone)
     \<noteq> Inr (Range (PNum (Fin 0)) (Var ''storage_cap'' ''N1'' ''battery'') (PNum NInf))"
  by (simp add: get_capacity_constraint_def model_with_def)

section \<open>The rules built on the resolver\<close>

text \<open>
  C7 (zero-forcing of \<^verbatim>\<open>resource_area\<close>), as amended. When \<^verbatim>\<open>energy_cap_max\<close> compares
  equal to zero (it is 0 or \<^verbatim>\<open>False\<close>) and \<^verbatim>\<open>resource_area_per_energy_cap\<close> is falsy (not
  set, \<^verbatim>\<open>False\<close>, or zero), the rule returns \<^verbatim>\<open>resource_area == 0\<close> without reading any of
  the \<^verbatim>\<open>resource_area\<close> bounds; in every other case its result is that of the resolver
  for \<^verbatim>\<open>resource_area\<close> with no argument supplied.
\<close>

theorem resource_area_zero_forcing:
  assumes "ecm = get_param m ''energy_cap_max'' [node, tech]"
    and "ratio = get_param m ''resource_area_per_energy_cap'' [node, tech]"
  shows "((ecm = PNum (Fin 0) \<or> ecm = PBool False)
            \<and> (ratio = PNone \<or> ratio = PBool False \<or> ratio = PNum (Fin 0))
          \<longrightarrow> resource_area_constraint_rule m node tech
                = ([], Inr (Equality (Var ''resource_area'' node tech) (PNum (Fin 0)))))
       \<and> (\<not> ((ecm = PNum (Fin 0) \<or> ecm = PBool False)
            \<and> (ratio = PNone \<or> ratio = PBool False \<or> ratio = PNum (Fin 0)))
          \<longrightarrow> resource_area_constraint_rule m node tech
                = get_capacity_constraint m ''resource_area'' node tech PNone PNone PNone PNone)"
  using assms
  by (auto simp add: resource_area_constraint_rule_def Let_def falsy_cases eq_zero_cases)

text \<open>
  An instance of C7: with \<^verbatim>\<open>energy_cap_max = 0\<close> and no ratio the configured bounds 5 and
  50 are overridden; with \<^verbatim>\<open>energy_cap_max = 20\<close> they are returned as a range.
\<close>

theorem resource_area_zero_forcing_witness:
  "resource_area_constraint_rule
      (model_with [(''energy_cap_max'', PNum (Fin 0)), (''resource_area_max'', PNum (Fin 50)),
                   (''resource_area_min'', PNum (Fin 5))]) ''N1'' ''pv''
     = ([], Inr (Equality (Var ''resource_area'' ''N1'' ''pv'') (PNum (Fin 0))))
   \<and> resource_area_constraint_rule
      (model_with [(''energy_cap_max'', PNum (Fin 20)), (''resource_area_max'', PNum (Fin 50)),
                   (''resource_area_min'', PNum (Fin 5))]) ''N1'' ''pv''
     = ([''resource_area_equals'', ''resource_area_max'', ''resource_area_min''],
        Inr (Range (PNum (Fin 5)) (Var ''resource_area'' ''N1'' ''pv'') (PNum (Fin 50))))"
proof -
  let ?a = "model_with [(''energy_cap_max'', PNum (Fin 0)), (''resource_area_max'', PNum (Fin 50)),
                        (''resource_area_min'', PNum (Fin 5))]"
  let ?b = "model_with [(''energy_cap_max'', PNum (Fin 20)), (''resource_area_max'', PNum (Fin 50)),
                        (''resource_area_min'', PNum (Fin 5))]"
  have a1: "PNum (Fin 0) = get_param ?a ''energy_cap_max'' [''N1'', ''pv'']"
    and a2: "PNone = get_param ?a ''resource_area_per_energy_cap'' [''N1'', ''pv'']"
    by (simp_all add: model_with_def)
  have b1: "PNum (Fin 20) = get_param ?b ''energy_cap_max'' [''N1'', ''pv'']"
    and b2: "PNone = get_param ?b ''resource_area_per_energy_cap'' [''N1'', ''pv'']"
    by (simp_all add: model_with_def)
  from resource_area_zero_forcing [OF a1 a2]
  have a: "resource_area_constraint_rule ?a ''N1'' ''pv''
     = ([], Inr (Equality (Var ''resource_area'' ''N1'' ''pv'') (PNum (Fin 0))))"
    by blast
  have "\<not> ((PNum (Fin 20) = PNum (Fin 0) \<or> PNum (Fin 20) = PBool False)
            \<and> (PNone = PNone \<or> PNone = PBool False \<or> PNone = PNum (Fin 0)))"
    by simp
  with resource_area_zero_forcing [OF b1 b2]
  have "resource_area_constraint_rule ?b ''N1'' ''pv''
     = get_capacity_constraint ?b ''resource_area'' ''N1'' ''pv'' PNone PNone PNone PNone"
    by blast
  also have "\<dots> = ([''resource_area_equals'', ''resource_area_max'', ''resource_area_min''],
        Inr (Range (PNum (Fin 5)) (Var ''resource_area'' ''N1'' ''pv'') (PNum (Fin 50))))"
    by (simp add: get_capacity_constraint_def model_with_def)
  finally show ?thesis using a by simp
qed

text \<open>
  C7 as stated fails for a ratio that is set to zero: with \<^verbatim>\<open>energy_cap_max = 0\<close> the
  rule forces the area to zero, where delegating to the resolver would have returned
  the range from 5 to 50.
\<close>

theorem zero_ratio_forces_area_to_zero:
  "resource_area_constraint_rule
      (model_with [(''energy_cap_max'', PNum (Fin 0)), (''resource_area_per_energy_cap'', PNum (Fin 0)),
                   (''resource_area_max'', PNum (Fin 50)), (''resource_area_min'', PNum (Fin 5))])
      ''N1'' ''pv''
     = ([], Inr (Equality (Var ''resource_area'' ''N1'' ''pv'') (PNum (Fin 0))))
   \<and> get_capacity_constraint
      (model_with [(''energy_cap_max'', PNum (Fin 0)), (''resource_area_per_energy_cap'', PNum (Fin 0)),
                   (''resource_area_max'', PNum (Fin 50)), (''resource_area_min'', PNum (Fin 5))])
      ''resource_area'' ''N1'' ''pv'' PNone PNone PNone PNone
     = ([''resource_area_equals'', ''resource_area_max'', ''resource_area_min''],
        Inr (Range (PNum (Fin 5)) (Var ''resource_area'' ''N1'' ''pv'') (PNum (Fin 50))))"
  by (simp add: resource_area_constraint_rule_def get_capacity_constraint_def model_with_def)

text \<open>
  C8 (systemwide precedence). The rule tests \<^verbatim>\<open>if equals_systemwide:\<close>, so a systemwide
  equals value of zero, which is a set value (the resolver treats an equals of zero as
  set), is sent to the other branch: with equals 0 and max 100 the sum of the
  \<^verbatim>\<open>energy_cap\<close> variables is bounded above by 100, where the property asks for the sum to
  be constrained to equal 0.
\<close>

theorem systemwide_zero_equals_takes_max:
  "energy_capacity_systemwide_constraint_rule
      (model_with [(''energy_cap_equals_systemwide'', PNum (Fin 0)),
                   (''energy_cap_max_systemwide'', PNum (Fin 100))]) ''pv''
     = Inr (SumLessEq [Var ''energy_cap'' ''N1'' ''pv''] (PNum (Fin 100)))
   \<and> energy_capacity_systemwide_constraint_rule
      (model_with [(''energy_cap_equals_systemwide'', PNum (Fin 0)),
                   (''energy_cap_max_systemwide'', PNum (Fin 100))]) ''pv''
     \<noteq> Inr (SumEquality [Var ''energy_cap'' ''N1'' ''pv''] (PNum (Fin 0)))"
  by (simp add: energy_capacity_systemwide_constraint_rule_def model_with_def)

text \<open>
  What the rule returns in general. The terms of the sum are the \<^verbatim>\<open>energy_cap\<close> variables
  of exactly those nodes whose pair with the technology is in the index set of
  \<^verbatim>\<open>energy_cap\<close>. A truthy systemwide equals value gives the equality, whatever the
  systemwide max is; otherwise the sum is bounded by the systemwide max, and the
  comparison raises when that max is \<^verbatim>\<open>None\<close>.
\<close>

lemma systemwide_rule_outcome:
  assumes "eq = get_param m ''energy_cap_equals_systemwide'' [tech]"
    and "mx = get_param m ''energy_cap_max_systemwide'' [tech]"
    and "terms = map (\<lambda>node. Var ''energy_cap'' node tech)
                    (filter (\<lambda>node. (node, tech) \<in> set (energy_cap_index m)) (nodes m))"
  shows "energy_capacity_systemwide_constraint_rule m tech =
           (if eq \<noteq> PNone \<and> eq \<noteq> PBool False \<and> eq \<noteq> PNum (Fin 0)
            then Inr (SumEquality terms eq)
            else if mx = PNone then Inl TypeError
            else Inr (SumLessEq terms mx))"
  using assms
  by (auto simp add: energy_capacity_systemwide_constraint_rule_def Let_def falsy_cases)

section \<open>The objective\<close>

text \<open>
  C5 (shape of the penalty term). Multiplication binds tighter than subtraction in
  \<^verbatim>\<open>sum(unmet_demand) - sum(unused_supply) * timestep_weights * bigM\<close>, so the weight and
  \<^verbatim>\<open>bigM\<close> multiply the unused supply only. With one timestep of weight 1, \<^verbatim>\<open>bigM = 1000\<close>,
  unmet demand 2 and unused supply 1 the penalty term is \<open>2 - 1 * 1 * 1000 = -998\<close>, where
  the property asks for \<open>(2 - 1) * 1 * 1000 = 1000\<close>.
\<close>

theorem penalty_scales_unused_supply_only:
  "eval slack_values (unmet_demand (model_with [])) = - 998
   \<and> (\<Sum>t\<leftarrow>timesteps (model_with []).
        ((\<Sum>e\<leftarrow>unmet_demand_slice (model_with []) t. eval slack_values e)
          - (\<Sum>e\<leftarrow>unused_supply_slice (model_with []) t. eval slack_values e))
        * timestep_weights (model_with []) t * bigM (model_with [])) = 1000"
  by (simp add: unmet_demand_def ensure_feasibility_def model_with_def unmet_demand_slice_def
      unused_supply_slice_def py_sum_def slack_values_def)

text \<open>
  C9 (sign of the penalty). With \<^verbatim>\<open>ensure_feasibility\<close> on, and under every assignment of
  values to the variables, the objective under the sense \<^verbatim>\<open>minimize\<close> is the weighted cost
  sum plus the penalty term, the objective under the sense \<^verbatim>\<open>maximize\<close> is the same
  weighted cost sum minus that same penalty term, and the penalty term built under
  \<^verbatim>\<open>maximize\<close> is the negation of the one built under \<^verbatim>\<open>minimize\<close>: what the penalty
  contributes to the objective has opposite signs in the two senses.
\<close>

theorem penalty_sign_flip:
  assumes "ensure_feasibility m"
  shows "eval \<rho> (obj_rule (m\<lparr>objective_sense := ''minimize''\<rparr>)) =
           (\<Sum>(k, v)\<leftarrow>objective_cost_class m.
              (\<Sum>(c, n, t)\<leftarrow>filter (\<lambda>(c, n, t). c = k) (cost_index m). \<rho> (Cost c n t)) * v)
           + eval \<rho> (unmet_demand (m\<lparr>objective_sense := ''minimize''\<rparr>))
       \<and> eval \<rho> (obj_rule (m\<lparr>objective_sense := ''maximize''\<rparr>)) =
           (\<Sum>(k, v)\<leftarrow>objective_cost_class m.
              (\<Sum>(c, n, t)\<leftarrow>filter (\<lambda>(c, n, t). c = k) (cost_index m). \<rho> (Cost c n t)) * v)
           - eval \<rho> (unmet_demand (m\<lparr>objective_sense := ''minimize''\<rparr>))
       \<and> eval \<rho> (unmet_demand (m\<lparr>objective_sense := ''maximize''\<rparr>))
           = - eval \<rho> (unmet_demand (m\<lparr>objective_sense := ''minimize''\<rparr>))"
proof -
  have flip: "eval \<rho> (unmet_demand (m\<lparr>objective_sense := ''maximize''\<rparr>))
           = - eval \<rho> (unmet_demand (m\<lparr>objective_sense := ''minimize''\<rparr>))"
    using assms
    by (simp add: unmet_demand_def ensure_feasibility_def unmet_demand_slice_def
        unused_supply_slice_def Let_def)
  have costs: "\<And>s. eval \<rho> (obj_rule (m\<lparr>objective_sense := s\<rparr>)) =
           (\<Sum>(k, v)\<leftarrow>objective_cost_class m.
              (\<Sum>(c, n, t)\<leftarrow>filter (\<lambda>(c, n, t). c = k) (cost_index m). \<rho> (Cost c n t)) * v)
           + eval \<rho> (unmet_demand (m\<lparr>objective_sense := s\<rparr>))"
    by (simp add: obj_rule_def eval_py_sum cost_slice_def comp_def split_def)
  show ?thesis using flip costs [of "''minimize''"] costs [of "''maximize''"] by simp
qed

text \<open>
  An instance of C9: with cost 7, the penalty term is -998 when minimizing and 998 when
  maximizing, and the objective is -991 and 1005.
\<close>

theorem penalty_sign_flip_witness:
  "ensure_feasibility (model_with [])
   \<and> eval slack_values (unmet_demand ((model_with [])\<lparr>objective_sense := ''minimize''\<rparr>)) = - 998
   \<and> eval slack_values (unmet_demand ((model_with [])\<lparr>objective_sense := ''maximize''\<rparr>)) = 998
   \<and> eval slack_values (obj_rule ((model_with [])\<lparr>objective_sense := ''minimize''\<rparr>)) = - 991
   \<and> eval slack_values (obj_rule ((model_with [])\<lparr>objective_sense := ''maximize''\<rparr>)) = 1005"
proof -
  have h: "ensure_feasibility (model_with [])"
    by (simp add: ensure_feasibility_def model_with_def)
  have mn: "eval slack_values (unmet_demand ((model_with [])\<lparr>objective_sense := ''minimize''\<rparr>)) = - 998"
    by (simp add: unmet_demand_def ensure_feasibility_def model_with_def unmet_demand_slice_def
      unused_supply_slice_def py_sum_def slack_values_def)
  have c: "(\<Sum>(k, v)\<leftarrow>objective_cost_class (model_with []).
              (\<Sum>(c, n, t)\<leftarrow>filter (\<lambda>(c, n, t). c = k) (cost_index (model_with [])).
                  slack_values (Cost c n t)) * v) = 7"
    by (simp add: model_with_def slack_values_def)
  note th = penalty_sign_flip [OF h, of slack_values]
  from th mn
  have mx: "eval slack_values (unmet_demand ((model_with [])\<lparr>objective_sense := ''maximize''\<rparr>)) = 998"
    by simp
  from th mn c
  have o1: "eval slack_values (obj_rule ((model_with [])\<lparr>objective_sense := ''minimize''\<rparr>)) = - 991"
    by simp
  from th mn c
  have o2: "eval slack_values (obj_rule ((model_with [])\<lparr>objective_sense := ''maximize''\<rparr>)) = 1005"
    by simp
  from h mn mx o1 o2 show ?thesis by simp
qed

text \<open>
  C10 (no penalty without the flag). When \<^verbatim>\<open>ensure_feasibility\<close> is false or absent from
  the run configuration, the penalty term is the literal 0, the objective has the
  value of the weighted sum over the cost classes of the sums of their costs, and
  every variable that occurs in the objective is a cost variable: no \<^verbatim>\<open>unmet_demand\<close> and
  no \<^verbatim>\<open>unused_supply\<close> variable occurs in it.
\<close>

theorem no_penalty_without_feasibility_flag:
  assumes "\<not> ensure_feasibility m"
  shows "unmet_demand m = Const 0
       \<and> eval \<rho> (obj_rule m) =
           (\<Sum>(k, v)\<leftarrow>objective_cost_class m.
              (\<Sum>(c, n, t)\<leftarrow>filter (\<lambda>(c, n, t). c = k) (cost_index m). \<rho> (Cost c n t)) * v)
       \<and> (\<forall>x\<in>vars_of (obj_rule m). \<exists>c n t. x = Cost c n t)"
proof (intro conjI)
  show u: "unmet_demand m = Const 0" using assms by (simp add: unmet_demand_def)
  have cs: "\<And>k. sum_list (map (eval \<rho>) (cost_slice m k))
      = (\<Sum>(c, n, t)\<leftarrow>filter (\<lambda>(c, n, t). c = k) (cost_index m). \<rho> (Cost c n t))"
    by (simp add: cost_slice_def comp_def split_def)
  show "eval \<rho> (obj_rule m) =
           (\<Sum>(k, v)\<leftarrow>objective_cost_class m.
              (\<Sum>(c, n, t)\<leftarrow>filter (\<lambda>(c, n, t). c = k) (cost_index m). \<rho> (Cost c n t)) * v)"
    by (simp add: obj_rule_def u eval_py_sum comp_def split_def cs)
  show "\<forall>x\<in>vars_of (obj_rule m). \<exists>c n t. x = Cost c n t"
    by (auto simp add: obj_rule_def u vars_of_py_sum cost_slice_def)
qed

text \<open>
An instance of C10: with an empty run configuration the objective is the one cost, 7.
\<close>

theorem no_penalty_without_feasibility_flag_witness:
  "\<not> ensure_feasibility ((model_with [])\<lparr>run_config := Map.empty\<rparr>)
   \<and> unmet_demand ((model_with [])\<lparr>run_config := Map.empty\<rparr>) = Const 0
   \<and> eval slack_values (obj_rule ((model_with [])\<lparr>run_config := Map.empty\<rparr>)) = 7"
proof -
  let ?m = "(model_with [])\<lparr>run_config := Map.empty\<rparr>"
  have h: "\<not> ensure_feasibility ?m" by (simp add: ensure_feasibility_def)
  from no_penalty_without_feasibility_flag [OF h, of slack_values]
  have u: "unmet_demand ?m = Const 0"
    and e: "eval slack_values (obj_rule ?m) =
           (\<Sum>(k, v)\<leftarrow>objective_cost_class ?m.
              (\<Sum>(c, n, t)\<leftarrow>filter (\<lambda>(c, n, t). c = k) (cost_index ?m). slack_values (Cost c n t)) * v)"
    by blast+
  from e have "eval slack_values (obj_rule ?m) = 7"
    by (simp add: model_with_def slack_values_def)
  with h u show ?thesis by simp
qed

end
